theory Spec2Isabelle
  imports Complex_Main "HOL-Library.Multiset" "HOL-Library.Sublist"
    "HOL-Library.Product_Lexorder"
begin

section \<open>Values read from the weather service\<close>

text \<open>
  A Python float is a finite value, one of the two infinities or NaN. A finite double
  is kept as the real number it denotes. Comparisons follow the language: every
  comparison with NaN is false, and the other values are ordered with the infinities
  at the ends. \<open>float_key\<close> places the values that are not NaN in a linear order.
\<close>

datatype pyfloat = Finite real | PosInf | NegInf | NaN

fun is_nan :: "pyfloat \<Rightarrow> bool" where
  "is_nan NaN = True"
| "is_nan _ = False"

fun float_key :: "pyfloat \<Rightarrow> int \<times> real" where
  "float_key NegInf = (-1, 0)"
| "float_key (Finite r) = (0, r)"
| "float_key PosInf = (1, 0)"
| "float_key NaN = (2, 0)"

text \<open>\<^verbatim>\<open>a <= b\<close> on floats.\<close>

definition fle :: "pyfloat \<Rightarrow> pyfloat \<Rightarrow> bool" where
  "fle a b = (\<not> is_nan a \<and> \<not> is_nan b \<and> float_key a \<le> float_key b)"

text \<open>
  \<^verbatim>\<open>response.json()\<close> hands the scraper a Python object built from the JSON body:
  \<^verbatim>\<open>None\<close>, a bool, an int, a float, a str, a list or a dict with string keys.
  A dict is kept as an association list read with \<open>map_of\<close>. A \<open>string\<close> is the
  UTF-8 byte sequence of the Python \<^verbatim>\<open>str\<close>; a lone surrogate, which a JSON escape
  can put into a str, is kept as the three bytes its code point would take.
\<close>

datatype pyval =
    PNone
  | PBool bool
  | PInt int
  | PFloat pyfloat
  | PStr string
  | PList "pyval list"
  | PDict "(string \<times> pyval) list"

text \<open>
  Instances of \<^verbatim>\<open>Exception\<close>, by the class that decides which handler takes them.
  \<open>RequestsJSONDecodeError\<close> is \<^verbatim>\<open>requests.exceptions.JSONDecodeError\<close>, which recent
  releases of the HTTP library raise from \<^verbatim>\<open>response.json()\<close> and which inherits
  from both \<^verbatim>\<open>RequestException\<close> and \<^verbatim>\<open>json.JSONDecodeError\<close>; older releases raise
  the plain \<open>JSONDecodeError\<close>. \<open>Other_Exception n\<close> is an instance of any other
  subclass of \<^verbatim>\<open>Exception\<close>, named \<open>n\<close>.
\<close>

datatype exn =
    RequestException
  | RequestsJSONDecodeError
  | JSONDecodeError
  | KeyError
  | IndexError
  | TypeError
  | ValueError
  | OverflowError
  | UnicodeEncodeError
  | OSError
  | Other_Exception string

fun is_RequestException :: "exn \<Rightarrow> bool" where
  "is_RequestException RequestException = True"
| "is_RequestException RequestsJSONDecodeError = True"
| "is_RequestException _ = False"

fun is_JSONDecodeError :: "exn \<Rightarrow> bool" where
  "is_JSONDecodeError JSONDecodeError = True"
| "is_JSONDecodeError RequestsJSONDecodeError = True"
| "is_JSONDecodeError _ = False"

fun is_KeyError :: "exn \<Rightarrow> bool" where
  "is_KeyError KeyError = True"
| "is_KeyError _ = False"

text \<open>Sequencing of statements that may raise: the first exception ends the block.\<close>

definition and_then :: "exn + 'a \<Rightarrow> ('a \<Rightarrow> exn + 'b) \<Rightarrow> exn + 'b" where
  "and_then m f = (case m of Inl x \<Rightarrow> Inl x | Inr v \<Rightarrow> f v)"

text \<open>
  \<^verbatim>\<open>v[key]\<close> with a string key: a dict raises \<^verbatim>\<open>KeyError\<close> for a missing key, every
  other object raises \<^verbatim>\<open>TypeError\<close> (a list or str wants an integer index, the rest
  is not subscriptable).
\<close>

fun getitem_key :: "pyval \<Rightarrow> string \<Rightarrow> exn + pyval" where
  "getitem_key (PDict kvs) k = (case map_of kvs k of None \<Rightarrow> Inl KeyError | Some v \<Rightarrow> Inr v)"
| "getitem_key _ k = Inl TypeError"

text \<open>
  \<^verbatim>\<open>v[0]\<close>: the first element of a list, \<^verbatim>\<open>IndexError\<close> on an empty one; a dict built
  from JSON has string keys only, so \<^verbatim>\<open>0\<close> is a missing key; a str yields its first
  character as a str (here its first byte: every use below subscripts the result by a
  string key next, which raises \<^verbatim>\<open>TypeError\<close> whatever it holds).
\<close>

fun getitem_0 :: "pyval \<Rightarrow> exn + pyval" where
  "getitem_0 (PList []) = Inl IndexError"
| "getitem_0 (PList (v # vs)) = Inr v"
| "getitem_0 (PDict kvs) = Inl KeyError"
| "getitem_0 (PStr []) = Inl IndexError"
| "getitem_0 (PStr (c # cs)) = Inr (PStr [c])"
| "getitem_0 _ = Inl TypeError"

text \<open>
  The builtins \<^verbatim>\<open>float\<close> and \<^verbatim>\<open>int\<close>. Three readings are the interpreter's own and
  are parameters: \<^verbatim>\<open>float\<close> of a str (\<open>None\<close> where it raises \<^verbatim>\<open>ValueError\<close>; the
  str \<^verbatim>\<open>'nan'\<close> gives NaN), \<^verbatim>\<open>float\<close> of an int (the nearest double, \<open>None\<close> where it
  raises \<^verbatim>\<open>OverflowError\<close>) and \<^verbatim>\<open>int\<close> of a str (\<open>None\<close> where it raises
  \<^verbatim>\<open>ValueError\<close>). \<^verbatim>\<open>int\<close> of a float truncates towards zero and raises
  \<^verbatim>\<open>ValueError\<close> on NaN and \<^verbatim>\<open>OverflowError\<close> on an infinity.
\<close>

fun py_float ::
  "(string \<Rightarrow> pyfloat option) \<Rightarrow> (int \<Rightarrow> pyfloat option) \<Rightarrow> pyval \<Rightarrow> exn + pyfloat" where
  "py_float sf itf (PStr s) = (case sf s of None \<Rightarrow> Inl ValueError | Some f \<Rightarrow> Inr f)"
| "py_float sf itf (PFloat f) = Inr f"
| "py_float sf itf (PInt i) = (case itf i of None \<Rightarrow> Inl OverflowError | Some f \<Rightarrow> Inr f)"
| "py_float sf itf (PBool b) = Inr (Finite (if b then 1 else 0))"
| "py_float sf itf _ = Inl TypeError"

fun py_int :: "(string \<Rightarrow> int option) \<Rightarrow> pyval \<Rightarrow> exn + int" where
  "py_int si (PStr s) = (case si s of None \<Rightarrow> Inl ValueError | Some i \<Rightarrow> Inr i)"
| "py_int si (PInt i) = Inr i"
| "py_int si (PFloat (Finite r)) = Inr (if 0 \<le> r then \<lfloor>r\<rfloor> else \<lceil>r\<rceil>)"
| "py_int si (PFloat NaN) = Inl ValueError"
| "py_int si (PFloat PosInf) = Inl OverflowError"
| "py_int si (PFloat NegInf) = Inl OverflowError"
| "py_int si (PBool b) = Inr (if b then 1 else 0)"
| "py_int si _ = Inl TypeError"

section \<open>Records, reports and the scraper's state\<close>

text \<open>
  The dict literal of lines 69--77, one field per key. \<open>Current_Condition\<close> is stored
  as the service sent it, without conversion, and the three floats as \<^verbatim>\<open>float\<close>
  returned them, NaN and the infinities included.
\<close>

record temperature_record =
  City :: string
  Min_Temp :: pyfloat
  Max_Temp :: pyfloat
  Current_Condition :: pyval
  Humidity :: int
  Wind_Speed :: pyfloat
  Fetched_At :: string

text \<open>The degree sign U+00B0 of the key names, in UTF-8.\<close>

definition deg :: string where
  "deg = [CHR 0xC2, CHR 0xB0]"

definition columns :: "string list" where
  "columns =
     [''City'', ''Min Temp ('' @ deg @ ''C)'', ''Max Temp ('' @ deg @ ''C)'',
      ''Current Condition'', ''Humidity (%)'', ''Wind Speed (km/h)'', ''Fetched At'']"

text \<open>The record as the Python dict it is: keys in insertion order with their values.\<close>

definition to_dict :: "temperature_record \<Rightarrow> (string \<times> pyval) list" where
  "to_dict r =
     zip columns
       [PStr (City r), PFloat (Min_Temp r), PFloat (Max_Temp r), Current_Condition r,
        PInt (Humidity r), PFloat (Wind_Speed r), PStr (Fetched_At r)]"

text \<open>
  The lines written by \<^verbatim>\<open>print\<close>, one constructor per message. The summary is
  printed in six blocks: the title with the count and the two averages (floating-point
  sums rounded for display, left out here), the hottest city, the coldest city, the
  two rankings and the full table.
\<close>

datatype report =
    Starting
  | Rule
  | Fetching string
  | Fetch_ok pyfloat pyfloat
  | Fetch_failed
  | Fetch_error exn
  | Error_fetching string exn
  | Error_parsing string exn
  | No_data_to_save
  | Saved_csv string
  | Saved_json string
  | No_data_available
  | Summary_totals nat
  | Hottest_city string pyfloat
  | Coldest_city string pyfloat
  | Top_hottest "(string \<times> pyfloat \<times> pyfloat \<times> pyval) list"
  | Top_coldest "(string \<times> pyfloat \<times> pyfloat \<times> pyval) list"
  | All_cities "(string \<times> pyfloat \<times> pyfloat \<times> pyval \<times> int) list"

text \<open>
  A file is kept as the document written to it: a CSV table (header and rows of cells)
  or the value that \<^verbatim>\<open>json.dump\<close> serialises; \<open>Truncated\<close> is a file whose text
  breaks off where a write failed.
\<close>

datatype file_content =
    Csv_table "string list" "pyval list list"
  | Json_document pyval
  | Truncated

text \<open>
  The instance attributes of \<^verbatim>\<open>TemperatureScraper\<close> together with the parts of the
  outside world its methods write to: the files, whether a path can be opened for
  writing, and the standard output.
\<close>

record state =
  cities :: "string list"
  temperature_data :: "temperature_record list"
  output_dir :: string
  files :: "string \<Rightarrow> file_content option"
  can_open :: "string \<Rightarrow> bool"
  stdout :: "report list"

definition print :: "report \<Rightarrow> state \<Rightarrow> state" where
  "print m s = s\<lparr>stdout := stdout s @ [m]\<rparr>"

text \<open>
  \<^verbatim>\<open>__init__\<close>: the fixed city list and an empty collection. The directory the module
  lives in, the files already on disk and the paths that can be written are given.
\<close>

definition TemperatureScraper_init ::
  "string \<Rightarrow> (string \<Rightarrow> file_content option) \<Rightarrow> (string \<Rightarrow> bool) \<Rightarrow> state" where
  "TemperatureScraper_init here fs ok =
     \<lparr>cities =
        [''New Delhi'', ''Kolkata'', ''Mumbai'', ''Chennai'', ''Bangalore'',
         ''Hyderabad'', ''Pune'', ''Gurgaon'', ''Lucknow'', ''Guwahati'',
         ''Bhubaneswar'', ''Ahmedabad'', ''Jaipur'', ''Dehradun'', ''Shimla''],
      temperature_data = [],
      output_dir = here @ ''/output'',
      files = fs,
      can_open = ok,
      stdout = []\<rparr>"

section \<open>Fetching one city\<close>

text \<open>
  What a run meets outside the program: for each city the outcome of lines 54--58 (the
  GET, \<^verbatim>\<open>raise_for_status\<close> and \<^verbatim>\<open>response.json()\<close>: an exception or the parsed
  body), the formatted clock reading taken at line 76, and the interpreter's three
  readings of numbers.
\<close>

record env =
  respond :: "string \<Rightarrow> exn + pyval"
  fetched_at :: "string \<Rightarrow> string"
  str_to_float :: "string \<Rightarrow> pyfloat option"
  int_to_float :: "int \<Rightarrow> pyfloat option"
  str_to_int :: "string \<Rightarrow> int option"

text \<open>The \<^verbatim>\<open>try\<close> block of \<^verbatim>\<open>_fetch_city_temperature\<close>, lines 53--77, in source order.\<close>

definition fetch_try :: "env \<Rightarrow> string \<Rightarrow> exn + temperature_record" where
  "fetch_try e city =
     and_then (respond e city) (\<lambda>data.
     and_then (getitem_key data ''current_condition'') (\<lambda>cc.
     and_then (getitem_0 cc) (\<lambda>current_condition.
     and_then (getitem_key data ''weather'') (\<lambda>w1.
     and_then (getitem_0 w1) (\<lambda>day1.
     and_then (getitem_key day1 ''mintempC'') (\<lambda>min_temp.
     and_then (getitem_key data ''weather'') (\<lambda>w2.
     and_then (getitem_0 w2) (\<lambda>day2.
     and_then (getitem_key day2 ''maxtempC'') (\<lambda>max_temp.
     and_then (getitem_key current_condition ''weatherDesc'') (\<lambda>wd.
     and_then (getitem_0 wd) (\<lambda>wd0.
     and_then (getitem_key wd0 ''value'') (\<lambda>condition.
     and_then (getitem_key current_condition ''humidity'') (\<lambda>humidity.
     and_then (getitem_key current_condition ''windspeedKmph'') (\<lambda>wind_speed.
     and_then (py_float (str_to_float e) (int_to_float e) min_temp) (\<lambda>mn.
     and_then (py_float (str_to_float e) (int_to_float e) max_temp) (\<lambda>mx.
     and_then (py_int (str_to_int e) humidity) (\<lambda>h.
     and_then (py_float (str_to_float e) (int_to_float e) wind_speed) (\<lambda>ws.
     Inr \<lparr>City = city, Min_Temp = mn, Max_Temp = mx, Current_Condition = condition,
          Humidity = h, Wind_Speed = ws,
          Fetched_At = fetched_at e city\<rparr>))))))))))))))))))"

text \<open>
  \<^verbatim>\<open>_fetch_city_temperature\<close> with its two handlers, tried in source order: a
  \<^verbatim>\<open>RequestException\<close> first, then \<^verbatim>\<open>KeyError\<close> or \<^verbatim>\<open>json.JSONDecodeError\<close>. Both
  report and return \<^verbatim>\<open>None\<close>; any other exception leaves the method.
\<close>

definition fetch_city_temperature ::
  "env \<Rightarrow> string \<Rightarrow> state \<Rightarrow> (exn + temperature_record option) \<times> state" where
  "fetch_city_temperature e city s =
     (case fetch_try e city of
        Inr r \<Rightarrow> (Inr (Some r), s)
      | Inl x \<Rightarrow>
          if is_RequestException x then (Inr None, print (Error_fetching city x) s)
          else if is_KeyError x \<or> is_JSONDecodeError x
          then (Inr None, print (Error_parsing city x) s)
          else (Inl x, s))"

section \<open>The driver\<close>

text \<open>
  The body of the loop of \<^verbatim>\<open>scrape_weather_data\<close>, lines 33--45. The dict returned
  by a successful fetch has seven keys, so \<^verbatim>\<open>if temp_data:\<close> separates it from
  \<^verbatim>\<open>None\<close>. \<^verbatim>\<open>except Exception\<close> takes every exception of \<open>exn\<close>. The pause of
  one second changes nothing in the state.
\<close>

definition scrape_city :: "env \<Rightarrow> string \<Rightarrow> state \<Rightarrow> state" where
  "scrape_city e city s =
     (case fetch_city_temperature e city (print (Fetching city) s) of
        (Inr (Some temp_data), s') \<Rightarrow>
          print (Fetch_ok (Min_Temp temp_data) (Max_Temp temp_data))
            (s'\<lparr>temperature_data := temperature_data s' @ [temp_data]\<rparr>)
      | (Inr None, s') \<Rightarrow> print Fetch_failed s'
      | (Inl x, s') \<Rightarrow> print (Fetch_error x) s')"

primrec scrape_cities :: "env \<Rightarrow> string list \<Rightarrow> state \<Rightarrow> state" where
  "scrape_cities e [] s = s"
| "scrape_cities e (city # rest) s = scrape_cities e rest (scrape_city e city s)"

definition scrape_weather_data :: "env \<Rightarrow> state \<Rightarrow> temperature_record list \<times> state" where
  "scrape_weather_data e s =
     (let s1 = print Rule (print Starting s);
          s2 = scrape_cities e (cities s1) s1;
          s3 = print Rule s2
      in (temperature_data s3, s3))"

text \<open>A city's fetch succeeds when the method returns a record.\<close>

definition fetch_succeeds :: "env \<Rightarrow> string \<Rightarrow> bool" where
  "fetch_succeeds e city = (case fetch_try e city of Inr r \<Rightarrow> True | Inl x \<Rightarrow> False)"

text \<open>
  \<^verbatim>\<open>KeyboardInterrupt\<close> and \<^verbatim>\<open>SystemExit\<close> derive from \<^verbatim>\<open>BaseException\<close>, not from
  \<^verbatim>\<open>Exception\<close>: \<^verbatim>\<open>except Exception\<close> does not take them, and neither do the
  fetcher's handlers. The driver in a world where such a signal may arrive while a
  city is being fetched: the signal leaves the loop and the method.
\<close>

datatype signal = KeyboardInterrupt | SystemExit

primrec scrape_cities_signalled ::
  "(string \<Rightarrow> signal option) \<Rightarrow> env \<Rightarrow> string list \<Rightarrow> state \<Rightarrow> signal + state" where
  "scrape_cities_signalled sg e [] s = Inr s"
| "scrape_cities_signalled sg e (city # rest) s =
     (case sg city of
        Some g \<Rightarrow> Inl g
      | None \<Rightarrow> scrape_cities_signalled sg e rest (scrape_city e city s))"

definition scrape_weather_data_signalled ::
  "(string \<Rightarrow> signal option) \<Rightarrow> env \<Rightarrow> state \<Rightarrow> signal + temperature_record list \<times> state" where
  "scrape_weather_data_signalled sg e s =
     (let s1 = print Rule (print Starting s)
      in case scrape_cities_signalled sg e (cities s1) s1 of
           Inl g \<Rightarrow> Inl g
         | Inr s2 \<Rightarrow> (let s3 = print Rule s2 in Inr (temperature_data s3, s3)))"

section \<open>The data frame operations used by the exporter and the summary\<close>

text \<open>
  \<^verbatim>\<open>pd.DataFrame(self.temperature_data)\<close> is a table with one row per dict, in list
  order, whose columns are the dicts' keys in insertion order. It is kept as the list
  of its rows; building it leaves \<^verbatim>\<open>self.temperature_data\<close> as it is.
\<close>

definition DataFrame :: "temperature_record list \<Rightarrow> temperature_record list" where
  "DataFrame rows = rows"

text \<open>
  \<^verbatim>\<open>sort_values(col, ascending=False)\<close>: the library sets the rows whose key is NaN
  aside, reverses the others, sorts them by ascending key, reverses the result and
  puts the NaN rows last, in their original order. With \<^verbatim>\<open>ascending=True\<close> it sorts
  without the two reversals. The sort used here is stable, which fixes an order among
  rows of equal key; the library's default sort does not promise one.
\<close>

definition sort_values_desc ::
  "(temperature_record \<Rightarrow> pyfloat) \<Rightarrow> temperature_record list \<Rightarrow> temperature_record list" where
  "sort_values_desc col df =
     rev (sort_key (\<lambda>r. float_key (col r)) (rev (filter (\<lambda>r. \<not> is_nan (col r)) df)))
       @ filter (\<lambda>r. is_nan (col r)) df"

definition sort_values_asc ::
  "(temperature_record \<Rightarrow> pyfloat) \<Rightarrow> temperature_record list \<Rightarrow> temperature_record list" where
  "sort_values_asc col df =
     sort_key (\<lambda>r. float_key (col r)) (filter (\<lambda>r. \<not> is_nan (col r)) df)
       @ filter (\<lambda>r. is_nan (col r)) df"

text \<open>
  \<^verbatim>\<open>nlargest(n, col)\<close> and \<^verbatim>\<open>nsmallest(n, col)\<close> with the default \<^verbatim>\<open>keep='first'\<close>:
  the first \<open>n\<close> rows of the frame sorted by the column (descending, ascending), rows
  of equal key in their original order, NaN rows taken last.
\<close>

definition nlargest ::
  "nat \<Rightarrow> (temperature_record \<Rightarrow> pyfloat) \<Rightarrow> temperature_record list \<Rightarrow> temperature_record list" where
  "nlargest n col df = take n (sort_values_desc col df)"

definition nsmallest ::
  "nat \<Rightarrow> (temperature_record \<Rightarrow> pyfloat) \<Rightarrow> temperature_record list \<Rightarrow> temperature_record list" where
  "nsmallest n col df = take n (sort_values_asc col df)"

text \<open>
  \<^verbatim>\<open>idxmax()\<close> and \<^verbatim>\<open>idxmin()\<close> of a column skip NaN and give the label of the first
  row holding the extreme value. A frame built from a list is labelled \<open>0, 1, 2, ...\<close>,
  so the label is the position. On a column without a number the lookup of line 136
  (137) ends in an exception: \<open>None\<close> here.
\<close>

definition idxmax :: "pyfloat list \<Rightarrow> nat option" where
  "idxmax vs =
     (if list_all is_nan vs then None
      else Some (length (takeWhile
             (\<lambda>v. is_nan v \<or> float_key v
                     \<noteq> Max (set (map float_key (filter (\<lambda>v. \<not> is_nan v) vs)))) vs)))"

definition idxmin :: "pyfloat list \<Rightarrow> nat option" where
  "idxmin vs =
     (if list_all is_nan vs then None
      else Some (length (takeWhile
             (\<lambda>v. is_nan v \<or> float_key v
                     \<noteq> Min (set (map float_key (filter (\<lambda>v. \<not> is_nan v) vs)))) vs)))"

text \<open>\<^verbatim>\<open>to_csv(path, index=False)\<close>: the header row, then one row of cells per row.\<close>

definition to_csv :: "temperature_record list \<Rightarrow> file_content" where
  "to_csv df = Csv_table columns (map (\<lambda>r. map snd (to_dict r)) df)"

section \<open>The exporter\<close>

text \<open>
  How a call of an exporter ends: it returns \<^verbatim>\<open>None\<close>, a path or a data frame, or an
  exception leaves it.
\<close>

datatype retval =
    RNone
  | RPath string
  | RFrame "temperature_record list"
  | Raised exn

definition csv_path :: "state \<Rightarrow> string \<Rightarrow> string" where
  "csv_path s timestamp = output_dir s @ ''/temperature_data_'' @ timestamp @ ''.csv''"

definition json_path :: "state \<Rightarrow> string \<Rightarrow> string" where
  "json_path s timestamp = output_dir s @ ''/temperature_data_'' @ timestamp @ ''.json''"

text \<open>
  Both exporters write text to a file opened with the UTF-8 codec. A str holding a
  lone surrogate cannot be encoded: in the byte form used here it shows as the byte
  \<open>0xED\<close> followed by a byte from \<open>0xA0\<close> on.
\<close>

fun has_surrogate :: "string \<Rightarrow> bool" where
  "has_surrogate (a # b # cs) =
     ((a = CHR 0xED \<and> (0xA0 :: nat) \<le> of_char b) \<or> has_surrogate (b # cs))"
| "has_surrogate cs = False"

text \<open>Every str inside a value, the keys of dicts included.\<close>

fun strings_of :: "pyval \<Rightarrow> string list" where
  "strings_of (PStr s) = [s]"
| "strings_of (PList vs) = concat (map strings_of vs)"
| "strings_of (PDict kvs) = concat (map (\<lambda>kv. fst kv # strings_of (snd kv)) kvs)"
| "strings_of v = []"

text \<open>
  The strs written for a record. \<^verbatim>\<open>json.dump\<close> writes every str of the condition;
  \<^verbatim>\<open>to_csv\<close> writes the condition itself when it is a str and the \<^verbatim>\<open>str()\<close> form of
  any other object, in which a surrogate is escaped.
\<close>

definition json_strings :: "temperature_record \<Rightarrow> string list" where
  "json_strings r = City r # Fetched_At r # strings_of (Current_Condition r)"

definition csv_strings :: "temperature_record \<Rightarrow> string list" where
  "csv_strings r =
     City r # Fetched_At r # (case Current_Condition r of PStr c \<Rightarrow> [c] | _ \<Rightarrow> [])"

definition json_encodable :: "temperature_record list \<Rightarrow> bool" where
  "json_encodable rows = list_all (\<lambda>r. list_all (\<lambda>str. \<not> has_surrogate str) (json_strings r)) rows"

definition csv_encodable :: "temperature_record list \<Rightarrow> bool" where
  "csv_encodable rows = list_all (\<lambda>r. list_all (\<lambda>str. \<not> has_surrogate str) (csv_strings r)) rows"

text \<open>
  Opening a file for writing and writing a document to it: \<^verbatim>\<open>OSError\<close> when the path
  cannot be opened, and no file then; \<^verbatim>\<open>UnicodeEncodeError\<close> when a str cannot be
  encoded, which leaves the file created with the text written before it. A write that
  fails for want of space is not modelled.
\<close>

definition write_file :: "string \<Rightarrow> bool \<Rightarrow> file_content \<Rightarrow> state \<Rightarrow> exn option \<times> state" where
  "write_file path encodable doc s =
     (if \<not> can_open s path then (Some OSError, s)
      else if \<not> encodable
      then (Some UnicodeEncodeError, s\<lparr>files := (files s)(path \<mapsto> Truncated)\<rparr>)
      else (None, s\<lparr>files := (files s)(path \<mapsto> doc)\<rparr>))"

text \<open>
  \<^verbatim>\<open>save_to_csv\<close>, lines 86--103. \<open>timestamp\<close> is the clock reading formatted at line
  97.
\<close>

definition save_to_csv :: "string \<Rightarrow> state \<Rightarrow> retval \<times> state" where
  "save_to_csv timestamp s =
     (if temperature_data s = [] then (RNone, print No_data_to_save s)
      else
        let df = DataFrame (temperature_data s);
            df = sort_values_desc Max_Temp df;
            csv_file = csv_path s timestamp
        in case write_file csv_file (csv_encodable df) (to_csv df) s of
             (Some x, s1) \<Rightarrow> (Raised x, s1)
           | (None, s1) \<Rightarrow> (RFrame df, print (Saved_csv csv_file) s1))"

text \<open>
  \<^verbatim>\<open>json.dump(obj, f, indent=2, ensure_ascii=False)\<close> writes the list of dicts as it is:
  an array of objects. The indentation only lays the text out. Numbers are written by
  the library; each str is written by \<open>py_encode_basestring\<close> below, the encoder that
  \<^verbatim>\<open>ensure_ascii=False\<close> selects.
\<close>

definition json_dump :: "temperature_record list \<Rightarrow> file_content" where
  "json_dump obj = Json_document (PList (map (\<lambda>r. PDict (to_dict r)) obj))"

definition hex_digit :: "nat \<Rightarrow> char" where
  "hex_digit n = ''0123456789abcdef'' ! n"

text \<open>
  The replacement table of the encoder: backslash, double quote, the five named
  control characters, and \<^verbatim>\<open>\u00XX\<close> for the other bytes below \<open>0x20\<close>. Every other
  byte stands for itself.
\<close>

definition escape_char :: "char \<Rightarrow> string" where
  "escape_char c =
     (if c = CHR 0x5C then [CHR 0x5C, CHR 0x5C]
      else if c = CHR 0x22 then [CHR 0x5C, CHR 0x22]
      else if c = CHR 0x08 then [CHR 0x5C, CHR ''b'']
      else if c = CHR 0x0C then [CHR 0x5C, CHR ''f'']
      else if c = CHR 0x0A then [CHR 0x5C, CHR ''n'']
      else if c = CHR 0x0D then [CHR 0x5C, CHR ''r'']
      else if c = CHR 0x09 then [CHR 0x5C, CHR ''t'']
      else if (of_char c :: nat) < 0x20
      then [CHR 0x5C, CHR ''u'', CHR ''0'', CHR ''0'',
            hex_digit ((of_char c :: nat) div 16), hex_digit ((of_char c :: nat) mod 16)]
      else [c])"

definition py_encode_basestring :: "string \<Rightarrow> string" where
  "py_encode_basestring s = CHR 0x22 # concat (map escape_char s) @ [CHR 0x22]"

text \<open>A byte of a character outside ASCII.\<close>

definition non_ascii :: "char \<Rightarrow> bool" where
  "non_ascii c = (128 \<le> (of_char c :: nat))"

text \<open>
  \<^verbatim>\<open>save_to_json\<close>, lines 105--118. It dumps \<^verbatim>\<open>self.temperature_data\<close> itself, not a
  sorted frame.
\<close>

definition save_to_json :: "string \<Rightarrow> state \<Rightarrow> retval \<times> state" where
  "save_to_json timestamp s =
     (if temperature_data s = [] then (RNone, print No_data_to_save s)
      else
        let json_file = json_path s timestamp
        in case write_file json_file (json_encodable (temperature_data s))
                  (json_dump (temperature_data s)) s of
             (Some x, s1) \<Rightarrow> (Raised x, s1)
           | (None, s1) \<Rightarrow> (RPath json_file, print (Saved_json json_file) s1))"

text \<open>
  Reading an exported JSON document back: the array of objects, and each object as a
  record when it has the seven fields with values of the record's types.
\<close>

definition record_of_dict :: "(string \<times> pyval) list \<Rightarrow> temperature_record option" where
  "record_of_dict kvs =
     (case map (map_of kvs) columns of
        [Some (PStr c), Some (PFloat mn), Some (PFloat mx), Some cond, Some (PInt h),
         Some (PFloat w), Some (PStr t)] \<Rightarrow>
          Some \<lparr>City = c, Min_Temp = mn, Max_Temp = mx, Current_Condition = cond,
                Humidity = h, Wind_Speed = w, Fetched_At = t\<rparr>
      | _ \<Rightarrow> None)"

definition json_objects :: "file_content \<Rightarrow> (string \<times> pyval) list list option" where
  "json_objects f =
     (case f of
        Json_document (PList ds) \<Rightarrow>
          those (map (\<lambda>d. case d of PDict kvs \<Rightarrow> Some kvs | _ \<Rightarrow> None) ds)
      | _ \<Rightarrow> None)"

definition json_records :: "file_content \<Rightarrow> temperature_record list option" where
  "json_records f =
     (case json_objects f of
        None \<Rightarrow> None
      | Some ds \<Rightarrow> those (map record_of_dict ds))"

section \<open>The summary\<close>

text \<open>
  What \<^verbatim>\<open>display_summary\<close> prints for a non-empty collection, lines 126--154, block by
  block, and the exception that ends it when a temperature column holds no number:
  the lookup of the hottest (coldest) city fails then, as \<^verbatim>\<open>ValueError\<close> in current
  releases of the library, before the line is printed.
\<close>

definition summary_blocks :: "temperature_record list \<Rightarrow> report list \<times> exn option" where
  "summary_blocks rows =
     (let df = DataFrame rows
      in case idxmax (map Max_Temp df) of
           None \<Rightarrow> ([Summary_totals (length df)], Some ValueError)
         | Some i \<Rightarrow>
             (case idxmin (map Min_Temp df) of
                None \<Rightarrow>
                  ([Summary_totals (length df),
                    Hottest_city (City (df ! i)) (Max_Temp (df ! i))],
                   Some ValueError)
              | Some j \<Rightarrow>
                  ([Summary_totals (length df),
                    Hottest_city (City (df ! i)) (Max_Temp (df ! i)),
                    Coldest_city (City (df ! j)) (Min_Temp (df ! j)),
                    Top_hottest
                      (map (\<lambda>r. (City r, Min_Temp r, Max_Temp r, Current_Condition r))
                         (nlargest 5 Max_Temp df)),
                    Top_coldest
                      (map (\<lambda>r. (City r, Min_Temp r, Max_Temp r, Current_Condition r))
                         (nsmallest 5 Min_Temp df)),
                    All_cities
                      (map (\<lambda>r. (City r, Min_Temp r, Max_Temp r, Current_Condition r,
                                  Humidity r)) df)],
                   None)))"

text \<open>
  \<^verbatim>\<open>display_summary\<close> returns nothing: \<open>display_summary\<close> is the state the call
  leaves, \<open>display_summary_raises\<close> the exception that left it, if one did.
\<close>

definition display_summary :: "state \<Rightarrow> state" where
  "display_summary s =
     (if temperature_data s = [] then print No_data_available s
      else s\<lparr>stdout := stdout s @ fst (summary_blocks (temperature_data s))\<rparr>)"

definition display_summary_raises :: "state \<Rightarrow> exn option" where
  "display_summary_raises s =
     (if temperature_data s = [] then None else snd (summary_blocks (temperature_data s)))"

section \<open>Sample worlds\<close>

text \<open>
  Readings of numbers for the examples. A str of decimal digits is read as Python
  reads it, \<^verbatim>\<open>'nan'\<close> as NaN, and the rest is rejected. An int becomes the float of the
  same value, without the rounding to a double, up to the bound from which Python
  raises \<^verbatim>\<open>OverflowError\<close>; the examples hold no integer.
\<close>

definition digit_of :: "char \<Rightarrow> nat option" where
  "digit_of =
     map_of
       [(CHR ''0'', 0), (CHR ''1'', 1), (CHR ''2'', 2), (CHR ''3'', 3), (CHR ''4'', 4),
        (CHR ''5'', 5), (CHR ''6'', 6), (CHR ''7'', 7), (CHR ''8'', 8), (CHR ''9'', 9)]"

fun digits_value :: "nat \<Rightarrow> string \<Rightarrow> nat option" where
  "digits_value acc [] = Some acc"
| "digits_value acc (c # cs) =
     (case digit_of c of None \<Rightarrow> None | Some d \<Rightarrow> digits_value (10 * acc + d) cs)"

definition plain_number :: "string \<Rightarrow> nat option" where
  "plain_number s = (if s = [] then None else digits_value 0 s)"

definition sample_float :: "string \<Rightarrow> pyfloat option" where
  "sample_float s =
     (if s = ''nan'' then Some NaN else map_option (\<lambda>n. Finite (of_nat n)) (plain_number s))"

definition sample_int_to_float :: "int \<Rightarrow> pyfloat option" where
  "sample_int_to_float i =
     (if 2 ^ 1024 - 2 ^ 970 \<le> \<bar>i\<bar> then None else Some (Finite (of_int i)))"

definition sample_int :: "string \<Rightarrow> int option" where
  "sample_int s = map_option int (plain_number s)"

text \<open>A body of the shape the service sends, with the five values read by the scraper.\<close>

definition wttr_body :: "string \<Rightarrow> string \<Rightarrow> string \<Rightarrow> string \<Rightarrow> string \<Rightarrow> pyval" where
  "wttr_body mn mx cond hum wind =
     PDict
       [(''current_condition'',
         PList [PDict [(''humidity'', PStr hum),
                       (''weatherDesc'', PList [PDict [(''value'', PStr cond)]]),
                       (''windspeedKmph'', PStr wind)]]),
        (''weather'', PList [PDict [(''maxtempC'', PStr mx), (''mintempC'', PStr mn)]])]"

text \<open>
  Mumbai and Shimla answer well; Pune answers with an empty \<^verbatim>\<open>current_condition\<close>
  array, Jaipur with a temperature that is not a number, Chennai without the
  \<^verbatim>\<open>weather\<close> key, Kolkata without \<^verbatim>\<open>current_condition\<close>, Guwahati with an empty
  \<^verbatim>\<open>weather\<close> array, Bangalore with an empty \<^verbatim>\<open>weatherDesc\<close> array, Lucknow and
  Gurgaon with a body that is not JSON (reported by the one and the other decoding
  error); the other cities cannot be reached.
\<close>

definition sample_respond :: "string \<Rightarrow> exn + pyval" where
  "sample_respond city =
     (if city = ''Mumbai'' then Inr (wttr_body ''26'' ''34'' ''Sunny'' ''60'' ''12'')
      else if city = ''Shimla'' then Inr (wttr_body ''8'' ''18'' ''Clear'' ''40'' ''5'')
      else if city = ''Pune''
      then Inr (PDict [(''current_condition'', PList []),
                       (''weather'', PList [PDict [(''maxtempC'', PStr ''30''),
                                                   (''mintempC'', PStr ''20'')]])])
      else if city = ''Jaipur'' then Inr (wttr_body ''cool'' ''35'' ''Haze'' ''30'' ''9'')
      else if city = ''Chennai''
      then Inr (PDict [(''current_condition'',
                        PList [PDict [(''humidity'', PStr ''70''),
                                      (''weatherDesc'', PList [PDict [(''value'', PStr ''Mist'')]]),
                                      (''windspeedKmph'', PStr ''7'')]])])
      else if city = ''Kolkata''
      then Inr (PDict [(''weather'', PList [PDict [(''maxtempC'', PStr ''31''),
                                                   (''mintempC'', PStr ''24'')]])])
      else if city = ''Lucknow'' then Inl JSONDecodeError
      else if city = ''Gurgaon'' then Inl RequestsJSONDecodeError
      else if city = ''Guwahati''
      then Inr (PDict [(''current_condition'',
                        PList [PDict [(''humidity'', PStr ''80''),
                                      (''weatherDesc'', PList [PDict [(''value'', PStr ''Fog'')]]),
                                      (''windspeedKmph'', PStr ''3'')]]),
                       (''weather'', PList [])])
      else if city = ''Bangalore''
      then Inr (PDict [(''current_condition'',
                        PList [PDict [(''humidity'', PStr ''45''),
                                      (''weatherDesc'', PList []),
                                      (''windspeedKmph'', PStr ''9'')]]),
                       (''weather'', PList [PDict [(''maxtempC'', PStr ''29''),
                                                   (''mintempC'', PStr ''16'')]])])
      else Inl RequestException)"

definition sample_env :: env where
  "sample_env =
     \<lparr>respond = sample_respond,
      fetched_at = (\<lambda>city. ''2026-01-15 09:30:00''),
      str_to_float = sample_float,
      int_to_float = sample_int_to_float,
      str_to_int = sample_int\<rparr>"

text \<open>A world in which no city can be reached.\<close>

definition offline_env :: env where
  "offline_env =
     \<lparr>respond = (\<lambda>city. Inl RequestException),
      fetched_at = (\<lambda>city. ''2026-01-15 10:00:00''),
      str_to_float = sample_float,
      int_to_float = sample_int_to_float,
      str_to_int = sample_int\<rparr>"

text \<open>
  The two records of the sample world, and a freshly built scraper on a disk on which
  every path can be written.
\<close>

definition mumbai :: temperature_record where
  "mumbai =
     \<lparr>City = ''Mumbai'', Min_Temp = Finite 26, Max_Temp = Finite 34,
      Current_Condition = PStr ''Sunny'', Humidity = 60, Wind_Speed = Finite 12,
      Fetched_At = ''2026-01-15 09:30:00''\<rparr>"

definition shimla :: temperature_record where
  "shimla =
     \<lparr>City = ''Shimla'', Min_Temp = Finite 8, Max_Temp = Finite 18,
      Current_Condition = PStr ''Clear'', Humidity = 40, Wind_Speed = Finite 5,
      Fetched_At = ''2026-01-15 09:30:00''\<rparr>"

definition fresh :: state where
  "fresh = TemperatureScraper_init ''/app'' Map.empty (\<lambda>path. True)"

text \<open>
  A world given by a table of bodies: the cities of the table answer with their body,
  the others cannot be reached.
\<close>

definition answering :: "(string \<times> pyval) list \<Rightarrow> env" where
  "answering table =
     \<lparr>respond =
        (\<lambda>city. case map_of table city of
                  None \<Rightarrow> Inl RequestException
                | Some body \<Rightarrow> Inr body),
      fetched_at = (\<lambda>city. ''2026-01-16 08:00:00''),
      str_to_float = sample_float,
      int_to_float = sample_int_to_float,
      str_to_int = sample_int\<rparr>"

text \<open>
  A world in which every city answers: minimum and maximum temperature, condition,
  humidity and wind speed per city, with equal values among them. The condition of
  Jaipur ends in the letter U+00E9, two bytes in UTF-8.
\<close>

definition india_env :: env where
  "india_env =
     answering
       [(''New Delhi'', wttr_body ''9'' ''21'' ''Haze'' ''60'' ''8''),
        (''Kolkata'', wttr_body ''15'' ''27'' ''Sunny'' ''55'' ''6''),
        (''Mumbai'', wttr_body ''21'' ''34'' ''Sunny'' ''60'' ''12''),
        (''Chennai'', wttr_body ''23'' ''34'' ''Partly cloudy'' ''70'' ''10''),
        (''Bangalore'', wttr_body ''16'' ''29'' ''Clear'' ''45'' ''9''),
        (''Hyderabad'', wttr_body ''17'' ''31'' ''Clear'' ''40'' ''7''),
        (''Pune'', wttr_body ''14'' ''31'' ''Sunny'' ''35'' ''5''),
        (''Gurgaon'', wttr_body ''9'' ''21'' ''Haze'' ''62'' ''8''),
        (''Lucknow'', wttr_body ''10'' ''23'' ''Mist'' ''75'' ''4''),
        (''Guwahati'', wttr_body ''12'' ''25'' ''Fog'' ''80'' ''3''),
        (''Bhubaneswar'', wttr_body ''17'' ''30'' ''Sunny'' ''50'' ''6''),
        (''Ahmedabad'', wttr_body ''15'' ''30'' ''Clear'' ''30'' ''11''),
        (''Jaipur'', wttr_body ''11'' ''25'' (''Ensoleill'' @ [CHR 0xC3, CHR 0xA9]) ''33'' ''9''),
        (''Dehradun'', wttr_body ''2'' ''18'' ''Clear'' ''48'' ''5''),
        (''Shimla'', wttr_body ''2'' ''9'' ''Snow'' ''85'' ''14'')]"

text \<open>The record the scraper builds from a body of such a world.\<close>

definition india_record ::
  "string \<Rightarrow> pyfloat \<Rightarrow> pyfloat \<Rightarrow> string \<Rightarrow> int \<Rightarrow> pyfloat \<Rightarrow> temperature_record" where
  "india_record city mn mx cond hum wind =
     \<lparr>City = city, Min_Temp = mn, Max_Temp = mx, Current_Condition = PStr cond,
      Humidity = hum, Wind_Speed = wind, Fetched_At = ''2026-01-16 08:00:00''\<rparr>"

definition india_records :: "temperature_record list" where
  "india_records =
     [india_record ''New Delhi'' (Finite 9) (Finite 21) ''Haze'' 60 (Finite 8),
      india_record ''Kolkata'' (Finite 15) (Finite 27) ''Sunny'' 55 (Finite 6),
      india_record ''Mumbai'' (Finite 21) (Finite 34) ''Sunny'' 60 (Finite 12),
      india_record ''Chennai'' (Finite 23) (Finite 34) ''Partly cloudy'' 70 (Finite 10),
      india_record ''Bangalore'' (Finite 16) (Finite 29) ''Clear'' 45 (Finite 9),
      india_record ''Hyderabad'' (Finite 17) (Finite 31) ''Clear'' 40 (Finite 7),
      india_record ''Pune'' (Finite 14) (Finite 31) ''Sunny'' 35 (Finite 5),
      india_record ''Gurgaon'' (Finite 9) (Finite 21) ''Haze'' 62 (Finite 8),
      india_record ''Lucknow'' (Finite 10) (Finite 23) ''Mist'' 75 (Finite 4),
      india_record ''Guwahati'' (Finite 12) (Finite 25) ''Fog'' 80 (Finite 3),
      india_record ''Bhubaneswar'' (Finite 17) (Finite 30) ''Sunny'' 50 (Finite 6),
      india_record ''Ahmedabad'' (Finite 15) (Finite 30) ''Clear'' 30 (Finite 11),
      india_record ''Jaipur'' (Finite 11) (Finite 25) (''Ensoleill'' @ [CHR 0xC3, CHR 0xA9]) 33
        (Finite 9),
      india_record ''Dehradun'' (Finite 2) (Finite 18) ''Clear'' 48 (Finite 5),
      india_record ''Shimla'' (Finite 2) (Finite 9) ''Snow'' 85 (Finite 14)]"

text \<open>
  A world in which Mumbai answers well and Shimla answers with \<^verbatim>\<open>"nan"\<close> for both
  temperatures, one in which only that Shimla answers, and one in which Mumbai's
  condition is a lone surrogate (U+D800).
\<close>

definition nan_env :: env where
  "nan_env =
     answering
       [(''Mumbai'', wttr_body ''21'' ''34'' ''Sunny'' ''60'' ''12''),
        (''Shimla'', wttr_body ''nan'' ''nan'' ''Snow'' ''85'' ''14'')]"

definition all_nan_env :: env where
  "all_nan_env = answering [(''Shimla'', wttr_body ''nan'' ''nan'' ''Snow'' ''85'' ''14'')]"

definition surrogate_env :: env where
  "surrogate_env =
     answering
       [(''Mumbai'', wttr_body ''21'' ''34'' [CHR 0xED, CHR 0xA0, CHR 0x80] ''60'' ''12'')]"

definition mumbai_16 :: temperature_record where
  "mumbai_16 = india_record ''Mumbai'' (Finite 21) (Finite 34) ''Sunny'' 60 (Finite 12)"

definition shimla_nan :: temperature_record where
  "shimla_nan = india_record ''Shimla'' NaN NaN ''Snow'' 85 (Finite 14)"

definition mumbai_surrogate :: temperature_record where
  "mumbai_surrogate =
     india_record ''Mumbai'' (Finite 21) (Finite 34) [CHR 0xED, CHR 0xA0, CHR 0x80] 60 (Finite 12)"

text \<open>A signal that arrives while Pune is being fetched.\<close>

definition interrupt_at_pune :: "string \<Rightarrow> signal option" where
  "interrupt_at_pune city = (if city = ''Pune'' then Some KeyboardInterrupt else None)"

text \<open>The states a first run over these worlds leaves behind.\<close>

definition after_first_run :: state where
  "after_first_run = snd (scrape_weather_data sample_env fresh)"

definition after_india_run :: state where
  "after_india_run = snd (scrape_weather_data india_env fresh)"

definition after_nan_run :: state where
  "after_nan_run = snd (scrape_weather_data nan_env fresh)"

definition after_all_nan_run :: state where
  "after_all_nan_run = snd (scrape_weather_data all_nan_env fresh)"

definition after_surrogate_run :: state where
  "after_surrogate_run = snd (scrape_weather_data surrogate_env fresh)"

section \<open>Notions used to state the properties\<close>

text \<open>The records of the cities whose fetch succeeds, in the order of the city list.\<close>

definition fetched_records :: "env \<Rightarrow> string list \<Rightarrow> temperature_record list" where
  "fetched_records e cs =
     concat (map (\<lambda>c. case fetch_try e c of Inr r \<Rightarrow> [r] | Inl x \<Rightarrow> []) cs)"

text \<open>The header and the rows of a CSV file.\<close>

definition csv_rows :: "file_content option \<Rightarrow> pyval list list" where
  "csv_rows f = (case f of Some (Csv_table header rows) \<Rightarrow> rows | _ \<Rightarrow> [])"

definition csv_header :: "file_content option \<Rightarrow> string list" where
  "csv_header f = (case f of Some (Csv_table header rows) \<Rightarrow> header | _ \<Rightarrow> [])"

text \<open>The lines one pass through the loop body prints for a city.\<close>

definition city_reports :: "env \<Rightarrow> string \<Rightarrow> report list" where
  "city_reports e city =
     Fetching city #
       (case fetch_try e city of
          Inr r \<Rightarrow> [Fetch_ok (Min_Temp r) (Max_Temp r)]
        | Inl x \<Rightarrow>
            if is_RequestException x then [Error_fetching city x, Fetch_failed]
            else if is_KeyError x \<or> is_JSONDecodeError x
            then [Error_parsing city x, Fetch_failed]
            else [Fetch_error x])"

fun is_Fetching :: "report \<Rightarrow> bool" where
  "is_Fetching (Fetching c) = True"
| "is_Fetching _ = False"

text \<open>Whether a float is a number, and whether a row's temperatures are.\<close>

definition is_number :: "pyfloat \<Rightarrow> bool" where
  "is_number v = (\<not> is_nan v)"

section \<open>Basic facts\<close>

lemma and_then_Inl [simp]: "and_then (Inl x) f = Inl x"
  by (simp add: and_then_def)

lemma and_then_Inr [simp]: "and_then (Inr v) f = f v"
  by (simp add: and_then_def)

lemma fetch_try_City: "fetch_try e c = Inr r \<Longrightarrow> City r = c"
  by (auto simp: fetch_try_def and_then_def split: sum.splits)

lemma print_simps [simp]:
  "temperature_data (print m s) = temperature_data s"
  "cities (print m s) = cities s"
  "output_dir (print m s) = output_dir s"
  "files (print m s) = files s"
  "can_open (print m s) = can_open s"
  "stdout (print m s) = stdout s @ [m]"
  by (simp_all add: print_def)

lemma fetch_city_temperature_fst:
  "fst (fetch_city_temperature e c s) =
     (case fetch_try e c of Inr r \<Rightarrow> Inr (Some r)
      | Inl x \<Rightarrow> if is_RequestException x \<or> is_KeyError x \<or> is_JSONDecodeError x then Inr None else Inl x)"
  by (simp add: fetch_city_temperature_def split: sum.splits)

lemma scrape_city_data:
  "temperature_data (scrape_city e c s) =
     temperature_data s @ (case fetch_try e c of Inr r \<Rightarrow> [r] | Inl x \<Rightarrow> [])"
  by (simp add: scrape_city_def fetch_city_temperature_def split: sum.splits)

lemma scrape_city_frame:
  "cities (scrape_city e c s) = cities s"
  "output_dir (scrape_city e c s) = output_dir s"
  "files (scrape_city e c s) = files s"
  "can_open (scrape_city e c s) = can_open s"
  by (simp_all add: scrape_city_def fetch_city_temperature_def split: sum.splits)

lemma scrape_cities_data:
  "temperature_data (scrape_cities e cs s) = temperature_data s @ fetched_records e cs"
  by (induction cs arbitrary: s) (simp_all add: fetched_records_def scrape_city_data)

lemma scrape_cities_frame:
  "cities (scrape_cities e cs s) = cities s"
  "output_dir (scrape_cities e cs s) = output_dir s"
  "files (scrape_cities e cs s) = files s"
  "can_open (scrape_cities e cs s) = can_open s"
  by (induction cs arbitrary: s) (simp_all add: scrape_city_frame)

lemma fetched_records_length:
  "length (fetched_records e cs) = length (filter (fetch_succeeds e) cs)"
  by (induction cs) (simp_all add: fetched_records_def fetch_succeeds_def split: sum.splits)

lemma fetched_records_City:
  "map City (fetched_records e cs) = filter (fetch_succeeds e) cs"
  by (induction cs) (auto simp: fetched_records_def fetch_succeeds_def fetch_try_City split: sum.splits)

lemma scrape_weather_data_fst:
  "fst (scrape_weather_data e s) = temperature_data s @ fetched_records e (cities s)"
  by (simp add: scrape_weather_data_def Let_def scrape_cities_data)

lemma scrape_weather_data_snd:
  "temperature_data (snd (scrape_weather_data e s)) = temperature_data s @ fetched_records e (cities s)"
  "cities (snd (scrape_weather_data e s)) = cities s"
  "output_dir (snd (scrape_weather_data e s)) = output_dir s"
  "files (snd (scrape_weather_data e s)) = files s"
  "can_open (snd (scrape_weather_data e s)) = can_open s"
  by (simp_all add: scrape_weather_data_def Let_def scrape_cities_data scrape_cities_frame)

lemmas sample_defs = fetch_try_def sample_env_def sample_respond_def wttr_body_def mumbai_def
  shimla_def plain_number_def digit_of_def offline_env_def sample_float_def sample_int_def
  answering_def india_record_def

lemma sample_succeeds:
  "filter (fetch_succeeds sample_env) (cities fresh) = [''Mumbai'', ''Shimla'']"
  by (simp add: fresh_def TemperatureScraper_init_def fetch_succeeds_def sample_defs)

lemma sample_fetched:
  "fetched_records sample_env (cities fresh) = [mumbai, shimla]"
  by (simp add: fresh_def TemperatureScraper_init_def fetched_records_def sample_defs)

lemma offline_fetched:
  "fetched_records offline_env (cities fresh) = []"
  by (simp add: fresh_def TemperatureScraper_init_def fetched_records_def sample_defs)

lemma offline_succeeds:
  "filter (fetch_succeeds offline_env) (cities fresh) = []"
  by (simp add: fresh_def TemperatureScraper_init_def fetch_succeeds_def sample_defs)

lemma india_fetched: "fetched_records india_env (cities fresh) = india_records"
  by (simp add: fresh_def TemperatureScraper_init_def fetched_records_def india_env_def
      india_records_def sample_defs)

lemma nan_fetched: "fetched_records nan_env (cities fresh) = [mumbai_16, shimla_nan]"
  by (simp add: fresh_def TemperatureScraper_init_def fetched_records_def nan_env_def
      mumbai_16_def shimla_nan_def sample_defs)

lemma all_nan_fetched: "fetched_records all_nan_env (cities fresh) = [shimla_nan]"
  by (simp add: fresh_def TemperatureScraper_init_def fetched_records_def all_nan_env_def
      shimla_nan_def sample_defs)

lemma surrogate_fetched: "fetched_records surrogate_env (cities fresh) = [mumbai_surrogate]"
  by (simp add: fresh_def TemperatureScraper_init_def fetched_records_def surrogate_env_def
      mumbai_surrogate_def sample_defs)

lemma fresh_data: "temperature_data fresh = []"
  by (simp add: fresh_def TemperatureScraper_init_def)

lemma fresh_simps:
  "temperature_data fresh = []"
  "stdout fresh = []"
  "files fresh = Map.empty"
  "output_dir fresh = ''/app/output''"
  "can_open fresh p = True"
  by (simp_all add: fresh_def TemperatureScraper_init_def)

lemma after_first_run_simps:
  "temperature_data after_first_run = [mumbai, shimla]"
  "cities after_first_run = cities fresh"
  "output_dir after_first_run = ''/app/output''"
  "files after_first_run = Map.empty"
  "can_open after_first_run p = True"
  by (simp_all add: after_first_run_def scrape_weather_data_snd sample_fetched fresh_simps)

lemma after_india_run_simps:
  "temperature_data after_india_run = india_records"
  "cities after_india_run = cities fresh"
  "output_dir after_india_run = ''/app/output''"
  "files after_india_run = Map.empty"
  "can_open after_india_run p = True"
  by (simp_all add: after_india_run_def scrape_weather_data_snd india_fetched fresh_simps)

lemma after_nan_run_simps:
  "temperature_data after_nan_run = [mumbai_16, shimla_nan]"
  "output_dir after_nan_run = ''/app/output''"
  "files after_nan_run = Map.empty"
  "can_open after_nan_run p = True"
  by (simp_all add: after_nan_run_def scrape_weather_data_snd nan_fetched fresh_simps)

lemma after_all_nan_run_simps:
  "temperature_data after_all_nan_run = [shimla_nan]"
  "output_dir after_all_nan_run = ''/app/output''"
  "files after_all_nan_run = Map.empty"
  "can_open after_all_nan_run p = True"
  by (simp_all add: after_all_nan_run_def scrape_weather_data_snd all_nan_fetched fresh_simps)

lemma after_surrogate_run_simps:
  "temperature_data after_surrogate_run = [mumbai_surrogate]"
  "output_dir after_surrogate_run = ''/app/output''"
  "files after_surrogate_run = Map.empty"
  "can_open after_surrogate_run p = True"
  by (simp_all add: after_surrogate_run_def scrape_weather_data_snd surrogate_fetched
      fresh_simps)

section \<open>The driver returns the successful records\<close>

text \<open>
  C1 (as amended). A run returns the records already held by the scraper followed by
  one record per city whose fetch succeeded, in the order of the city list, each
  carrying its city's name; the number of new records is the number K of successful
  cities. On a scraper whose collection is empty, as a newly built one is, the run
  returns exactly K records, none when no city succeeds.
\<close>

theorem scrape_weather_data_returns_successes:
  "fst (scrape_weather_data e s) = temperature_data s @ fetched_records e (cities s)
   \<and> length (fetched_records e (cities s)) = length (filter (fetch_succeeds e) (cities s))
   \<and> map City (fetched_records e (cities s)) = filter (fetch_succeeds e) (cities s)
   \<and> (temperature_data s = [] \<longrightarrow>
        length (fst (scrape_weather_data e s)) = length (filter (fetch_succeeds e) (cities s)))"
  by (simp add: scrape_weather_data_fst fetched_records_length fetched_records_City)

theorem scrape_weather_data_returns_successes_witness:
  "temperature_data fresh = []
   \<and> fst (scrape_weather_data sample_env fresh) = [mumbai, shimla]
   \<and> filter (fetch_succeeds sample_env) (cities fresh) = [''Mumbai'', ''Shimla'']
   \<and> length (fst (scrape_weather_data sample_env fresh)) = 2
   \<and> fst (scrape_weather_data offline_env fresh) = []"
  using scrape_weather_data_returns_successes [of sample_env fresh]
    scrape_weather_data_returns_successes [of offline_env fresh]
  by (simp add: sample_fetched sample_succeeds offline_fetched fresh_data)

text \<open>
  C1 as stated fails on a second run of the same scraper: with no city reachable
  (K = 0) the run still returns the two records of the first run.
\<close>

theorem second_run_returns_more_than_its_successes:
  "length (filter (fetch_succeeds offline_env) (cities after_first_run)) = 0
   \<and> fst (scrape_weather_data offline_env after_first_run) = [mumbai, shimla]"
  by (simp add: scrape_weather_data_fst after_first_run_simps offline_fetched offline_succeeds)

section \<open>The fetcher on malformed responses\<close>

text \<open>
  C2. A response without the \<^verbatim>\<open>current_condition\<close> key (Kolkata) or without the
  \<^verbatim>\<open>weather\<close> key (Chennai) makes the fetcher report a parse error and return
  \<^verbatim>\<open>None\<close>, as the claim says. A response with an empty array at an expected index
  does not: for an empty \<^verbatim>\<open>current_condition\<close> (Pune), \<^verbatim>\<open>weather\<close> (Guwahati) or
  \<^verbatim>\<open>weatherDesc\<close> (Bangalore) array the \<^verbatim>\<open>IndexError\<close> is taken by neither handler
  and leaves the call, with nothing reported. A body that is not JSON gives \<^verbatim>\<open>None\<close>,
  with the parse-error report when the decoding error is the plain one (Lucknow) and
  with the network-error report when it is the HTTP library's own class (Gurgaon).
\<close>

theorem empty_array_raises_out_of_fetcher:
  "fetch_city_temperature sample_env ''Kolkata'' fresh
     = (Inr None, print (Error_parsing ''Kolkata'' KeyError) fresh)
   \<and> fetch_city_temperature sample_env ''Chennai'' fresh
     = (Inr None, print (Error_parsing ''Chennai'' KeyError) fresh)
   \<and> respond sample_env ''Pune''
     = Inr (PDict [(''current_condition'', PList []),
                   (''weather'', PList [PDict [(''maxtempC'', PStr ''30''),
                                               (''mintempC'', PStr ''20'')]])])
   \<and> fetch_city_temperature sample_env ''Pune'' fresh = (Inl IndexError, fresh)
   \<and> fetch_city_temperature sample_env ''Guwahati'' fresh = (Inl IndexError, fresh)
   \<and> fetch_city_temperature sample_env ''Bangalore'' fresh = (Inl IndexError, fresh)
   \<and> fetch_city_temperature sample_env ''Lucknow'' fresh
     = (Inr None, print (Error_parsing ''Lucknow'' JSONDecodeError) fresh)
   \<and> fetch_city_temperature sample_env ''Gurgaon'' fresh
     = (Inr None, print (Error_fetching ''Gurgaon'' RequestsJSONDecodeError) fresh)"
  by (simp add: fetch_city_temperature_def sample_defs)

section \<open>The driver and the exceptions of a fetch\<close>

lemma scrape_city_eq:
  "scrape_city e city s =
     s\<lparr>temperature_data :=
          temperature_data s @ (case fetch_try e city of Inr r \<Rightarrow> [r] | Inl x \<Rightarrow> []),
        stdout := stdout s @ city_reports e city\<rparr>"
  by (simp add: scrape_city_def fetch_city_temperature_def city_reports_def print_def
      split: sum.splits)

lemma city_reports_Fetching: "filter is_Fetching (city_reports e city) = [Fetching city]"
  by (simp add: city_reports_def split: sum.splits)

lemma scrape_cities_stdout:
  "stdout (scrape_cities e cs s) = stdout s @ concat (map (city_reports e) cs)"
  by (induction cs arbitrary: s) (simp_all add: scrape_city_eq)

lemma concat_city_reports_Fetching:
  "filter is_Fetching (concat (map (city_reports e) cs)) = map Fetching cs"
  by (induction cs) (simp_all add: city_reports_Fetching)

lemma scrape_weather_data_stdout:
  "stdout (snd (scrape_weather_data e s)) =
     stdout s @ [Starting, Rule] @ concat (map (city_reports e) (cities s)) @ [Rule]"
  by (simp add: scrape_weather_data_def Let_def scrape_cities_stdout scrape_cities_frame)

lemma scrape_cities_signalled_none:
  "list_all (\<lambda>c. sg c = None) cs \<Longrightarrow>
     scrape_cities_signalled sg e cs s = Inr (scrape_cities e cs s)"
  by (induction cs arbitrary: s) simp_all

lemma scrape_cities_signalled_some:
  "list_all (\<lambda>c. sg c = None) before \<Longrightarrow> sg city = Some g \<Longrightarrow>
     scrape_cities_signalled sg e (before @ city # rest) s = Inl g"
  by (induction before arbitrary: s) simp_all

lemma sample_pune: "fetch_try sample_env ''Pune'' = Inl IndexError"
  by (simp add: sample_defs)

lemma sample_jaipur: "fetch_try sample_env ''Jaipur'' = Inl ValueError"
  by (simp add: sample_defs)

text \<open>
  C10 (as amended). Whatever instance of \<^verbatim>\<open>Exception\<close> the fetch of a city ends in,
  the loop body only adds report lines and leaves the collection as it was: the
  fetcher's own handlers report a network or parse error and the driver reports the
  failed fetch, and any other exception (a \<^verbatim>\<open>ValueError\<close> or \<^verbatim>\<open>OverflowError\<close> from a
  conversion, an \<^verbatim>\<open>IndexError\<close> from an empty array, a \<^verbatim>\<open>TypeError\<close>, one of any
  other class) is caught and reported by the driver. When no signal outside
  \<^verbatim>\<open>Exception\<close> arrives, the run completes: every city of the list is attempted in
  order and the collection is returned. A signal outside \<^verbatim>\<open>Exception\<close> that arrives
  during a fetch is not caught and ends the run.
\<close>

theorem scrape_survives_every_exception:
  "(fetch_try e city = Inl x \<longrightarrow>
      scrape_city e city s =
        s\<lparr>stdout := stdout s @ Fetching city #
             (if is_RequestException x then [Error_fetching city x, Fetch_failed]
              else if is_KeyError x \<or> is_JSONDecodeError x
              then [Error_parsing city x, Fetch_failed]
              else [Fetch_error x])\<rparr>)
   \<and> (fst (fetch_city_temperature e city (print (Fetching city) s)) = Inl x \<longrightarrow>
        scrape_cities e (city # rest) s
          = scrape_cities e rest (print (Fetch_error x) (print (Fetching city) s)))
   \<and> filter is_Fetching (drop (length (stdout s)) (stdout (snd (scrape_weather_data e s))))
        = map Fetching (cities s)
   \<and> fst (scrape_weather_data e s) = temperature_data s @ fetched_records e (cities s)
   \<and> (list_all (\<lambda>c. sg c = None) (cities s) \<longrightarrow>
        scrape_weather_data_signalled sg e s = Inr (scrape_weather_data e s))
   \<and> (cities s = before @ city # rest \<and> list_all (\<lambda>c. sg c = None) before \<and> sg city = Some g
        \<longrightarrow> scrape_weather_data_signalled sg e s = Inl g)"
proof (intro conjI impI)
  assume "fetch_try e city = Inl x"
  then show "scrape_city e city s =
        s\<lparr>stdout := stdout s @ Fetching city #
             (if is_RequestException x then [Error_fetching city x, Fetch_failed]
              else if is_KeyError x \<or> is_JSONDecodeError x
              then [Error_parsing city x, Fetch_failed]
              else [Fetch_error x])\<rparr>"
    by (simp add: scrape_city_eq city_reports_def)
next
  assume "fst (fetch_city_temperature e city (print (Fetching city) s)) = Inl x"
  then have "scrape_city e city s = print (Fetch_error x) (print (Fetching city) s)"
    by (cases "fetch_try e city")
      (auto simp: scrape_city_def fetch_city_temperature_def split: if_splits)
  then show "scrape_cities e (city # rest) s
          = scrape_cities e rest (print (Fetch_error x) (print (Fetching city) s))"
    by simp
next
  show "filter is_Fetching (drop (length (stdout s)) (stdout (snd (scrape_weather_data e s))))
        = map Fetching (cities s)"
    by (simp add: scrape_weather_data_stdout concat_city_reports_Fetching)
next
  show "fst (scrape_weather_data e s) = temperature_data s @ fetched_records e (cities s)"
    by (rule scrape_weather_data_fst)
next
  assume "list_all (\<lambda>c. sg c = None) (cities s)"
  then show "scrape_weather_data_signalled sg e s = Inr (scrape_weather_data e s)"
    by (simp add: scrape_weather_data_signalled_def scrape_weather_data_def Let_def
        scrape_cities_signalled_none)
next
  assume "cities s = before @ city # rest \<and> list_all (\<lambda>c. sg c = None) before
    \<and> sg city = Some g"
  then show "scrape_weather_data_signalled sg e s = Inl g"
    by (simp add: scrape_weather_data_signalled_def Let_def scrape_cities_signalled_some)
qed

lemma cities_fresh:
  "cities fresh =
     [''New Delhi'', ''Kolkata'', ''Mumbai'', ''Chennai'', ''Bangalore'', ''Hyderabad'']
       @ ''Pune'' #
     [''Gurgaon'', ''Lucknow'', ''Guwahati'', ''Bhubaneswar'', ''Ahmedabad'', ''Jaipur'',
      ''Dehradun'', ''Shimla'']"
  by (simp add: fresh_def TemperatureScraper_init_def)

lemma no_interrupt_before_pune:
  "list_all (\<lambda>c. interrupt_at_pune c = None)
     [''New Delhi'', ''Kolkata'', ''Mumbai'', ''Chennai'', ''Bangalore'', ''Hyderabad'']"
  by (simp add: interrupt_at_pune_def)

theorem scrape_survives_every_exception_witness:
  "fetch_try sample_env ''Pune'' = Inl IndexError
   \<and> scrape_city sample_env ''Pune'' fresh
        = fresh\<lparr>stdout := [Fetching ''Pune'', Fetch_error IndexError]\<rparr>
   \<and> fetch_try sample_env ''Jaipur'' = Inl ValueError
   \<and> scrape_city sample_env ''Jaipur'' fresh
        = fresh\<lparr>stdout := [Fetching ''Jaipur'', Fetch_error ValueError]\<rparr>
   \<and> filter is_Fetching (stdout (snd (scrape_weather_data sample_env fresh)))
        = map Fetching (cities fresh)
   \<and> fst (scrape_weather_data sample_env fresh) = [mumbai, shimla]
   \<and> scrape_weather_data_signalled (\<lambda>c. None) sample_env fresh
        = Inr (scrape_weather_data sample_env fresh)
   \<and> scrape_weather_data_signalled interrupt_at_pune sample_env fresh = Inl KeyboardInterrupt"
proof -
  note pune = scrape_survives_every_exception [where e = sample_env and city = "''Pune''"
      and x = IndexError and s = fresh and sg = interrupt_at_pune and g = KeyboardInterrupt
      and before = "[''New Delhi'', ''Kolkata'', ''Mumbai'', ''Chennai'', ''Bangalore'',
         ''Hyderabad'']"
      and rest = "[''Gurgaon'', ''Lucknow'', ''Guwahati'', ''Bhubaneswar'', ''Ahmedabad'',
         ''Jaipur'', ''Dehradun'', ''Shimla'']"]
  note jaipur = scrape_survives_every_exception [where e = sample_env and city = "''Jaipur''"
      and x = ValueError and s = fresh and sg = "\<lambda>c. None" and g = KeyboardInterrupt
      and before = "[]" and rest = "[]"]
  have a: "scrape_city sample_env ''Pune'' fresh
        = fresh\<lparr>stdout := [Fetching ''Pune'', Fetch_error IndexError]\<rparr>"
    using pune by (simp add: sample_pune fresh_simps)
  have b: "scrape_city sample_env ''Jaipur'' fresh
        = fresh\<lparr>stdout := [Fetching ''Jaipur'', Fetch_error ValueError]\<rparr>"
    using jaipur by (simp add: sample_jaipur fresh_simps)
  have c: "filter is_Fetching (stdout (snd (scrape_weather_data sample_env fresh)))
        = map Fetching (cities fresh)"
    using jaipur by (simp add: fresh_simps)
  have d: "fst (scrape_weather_data sample_env fresh) = [mumbai, shimla]"
    using jaipur by (simp add: fresh_simps sample_fetched)
  have e: "scrape_weather_data_signalled (\<lambda>c. None) sample_env fresh
        = Inr (scrape_weather_data sample_env fresh)"
    using jaipur by (simp add: list_all_iff)
  have f: "scrape_weather_data_signalled interrupt_at_pune sample_env fresh
        = Inl KeyboardInterrupt"
    using pune cities_fresh no_interrupt_before_pune by (simp add: interrupt_at_pune_def)
  show ?thesis
    using a b c d e f sample_pune sample_jaipur by simp
qed

text \<open>
  C10 as stated fails for an exception outside \<^verbatim>\<open>Exception\<close>: a
  \<^verbatim>\<open>KeyboardInterrupt\<close> raised while Pune is being fetched ends the run, and no list
  is returned.
\<close>

theorem keyboard_interrupt_ends_the_run:
  "interrupt_at_pune ''Pune'' = Some KeyboardInterrupt
   \<and> scrape_weather_data_signalled interrupt_at_pune sample_env fresh = Inl KeyboardInterrupt"
  by (simp add: scrape_weather_data_signalled_def interrupt_at_pune_def fresh_def
      TemperatureScraper_init_def Let_def print_def)

section \<open>Exporting an empty collection\<close>

text \<open>
  C3. On an empty collection \<^verbatim>\<open>save_to_csv\<close> and \<^verbatim>\<open>save_to_json\<close> both print the
  no-data message and return \<^verbatim>\<open>None\<close>, and the files are those there were before.
\<close>

theorem export_of_empty_collection:
  "temperature_data s = [] \<Longrightarrow>
     save_to_csv timestamp s = (RNone, print No_data_to_save s)
     \<and> save_to_json timestamp s = (RNone, print No_data_to_save s)
     \<and> files (snd (save_to_csv timestamp s)) = files s
     \<and> files (snd (save_to_json timestamp s)) = files s"
  by (simp add: save_to_csv_def save_to_json_def)

theorem export_of_empty_collection_witness:
  "temperature_data fresh = []
   \<and> save_to_csv ''20260115_093000'' fresh = (RNone, print No_data_to_save fresh)
   \<and> save_to_json ''20260115_093000'' fresh = (RNone, print No_data_to_save fresh)
   \<and> files (snd (save_to_csv ''20260115_093000'' fresh)) = Map.empty
   \<and> files (snd (save_to_json ''20260115_093000'' fresh)) = Map.empty"
  using export_of_empty_collection [of fresh "''20260115_093000''"]
  by (simp add: fresh_simps)

section \<open>What the exporters return\<close>

lemma write_file_ok:
  "can_open s path \<Longrightarrow> encodable \<Longrightarrow>
     write_file path encodable doc s = (None, s\<lparr>files := (files s)(path \<mapsto> doc)\<rparr>)"
  by (simp add: write_file_def)

lemma save_to_csv_nonempty:
  "temperature_data s \<noteq> [] \<Longrightarrow> can_open s (csv_path s timestamp) \<Longrightarrow>
   csv_encodable (sort_values_desc Max_Temp (temperature_data s)) \<Longrightarrow>
     save_to_csv timestamp s =
       (RFrame (sort_values_desc Max_Temp (temperature_data s)),
        print (Saved_csv (csv_path s timestamp))
          (s\<lparr>files := (files s)(csv_path s timestamp \<mapsto>
                          to_csv (sort_values_desc Max_Temp (temperature_data s)))\<rparr>))"
  by (simp add: save_to_csv_def Let_def DataFrame_def write_file_ok)

lemma save_to_json_nonempty:
  "temperature_data s \<noteq> [] \<Longrightarrow> can_open s (json_path s timestamp) \<Longrightarrow>
   json_encodable (temperature_data s) \<Longrightarrow>
     save_to_json timestamp s =
       (RPath (json_path s timestamp),
        print (Saved_json (json_path s timestamp))
          (s\<lparr>files := (files s)(json_path s timestamp \<mapsto> json_dump (temperature_data s))\<rparr>))"
  by (simp add: save_to_json_def Let_def write_file_ok)

lemma sort_sample: "sort_values_desc Max_Temp [mumbai, shimla] = [mumbai, shimla]"
  by (simp add: sort_values_desc_def mumbai_def shimla_def)

lemma sample_encodable:
  "csv_encodable [mumbai, shimla]"
  "json_encodable [mumbai, shimla]"
  by (simp_all add: csv_encodable_def json_encodable_def csv_strings_def json_strings_def
      mumbai_def shimla_def)

text \<open>
  C8. After the first run of the sample world \<^verbatim>\<open>save_to_json\<close> writes the JSON file
  and returns its path, as the claim says. \<^verbatim>\<open>save_to_csv\<close> writes the CSV file and
  returns the sorted data frame (line 103), which is not the file's path.
\<close>

theorem save_to_csv_returns_frame_not_path:
  "temperature_data after_first_run = [mumbai, shimla]
   \<and> fst (save_to_json ''20260115_093100'' after_first_run)
       = RPath ''/app/output/temperature_data_20260115_093100.json''
   \<and> files (snd (save_to_json ''20260115_093100'' after_first_run))
         ''/app/output/temperature_data_20260115_093100.json''
       = Some (json_dump [mumbai, shimla])
   \<and> fst (save_to_csv ''20260115_093100'' after_first_run) = RFrame [mumbai, shimla]
   \<and> files (snd (save_to_csv ''20260115_093100'' after_first_run))
         ''/app/output/temperature_data_20260115_093100.csv''
       = Some (to_csv [mumbai, shimla])
   \<and> fst (save_to_csv ''20260115_093100'' after_first_run)
       \<noteq> RPath ''/app/output/temperature_data_20260115_093100.csv''"
  by (simp add: save_to_csv_nonempty save_to_json_nonempty after_first_run_simps sort_sample
      sample_encodable csv_path_def json_path_def)

section \<open>The collection outlives exports and runs\<close>

lemma display_summary_frame:
  "temperature_data (display_summary s) = temperature_data s"
  "cities (display_summary s) = cities s"
  "files (display_summary s) = files s"
  by (simp_all add: display_summary_def)

lemma save_frame:
  "temperature_data (snd (save_to_csv timestamp s)) = temperature_data s"
  "temperature_data (snd (save_to_json timestamp s)) = temperature_data s"
  "cities (snd (save_to_csv timestamp s)) = cities s"
  "cities (snd (save_to_json timestamp s)) = cities s"
  by (simp_all add: save_to_csv_def save_to_json_def write_file_def Let_def)

text \<open>
  C9 (as amended). Exporting and summarising leave the collection as it is, and a later
  run of the same scraper returns the records it held before, those of the earlier
  run included, followed by the records of its own successful cities.
\<close>

theorem records_are_kept_across_exports_and_runs:
  "temperature_data (snd (save_to_csv timestamp s)) = temperature_data s
   \<and> temperature_data (snd (save_to_json timestamp s)) = temperature_data s
   \<and> temperature_data (display_summary s) = temperature_data s
   \<and> fst (scrape_weather_data e2 (snd (save_to_csv timestamp (snd (scrape_weather_data e1 s)))))
       = temperature_data s @ fetched_records e1 (cities s) @ fetched_records e2 (cities s)
   \<and> fst (scrape_weather_data e2 (snd (save_to_json timestamp (snd (scrape_weather_data e1 s)))))
       = temperature_data s @ fetched_records e1 (cities s) @ fetched_records e2 (cities s)"
  by (simp add: save_frame display_summary_frame scrape_weather_data_fst scrape_weather_data_snd)

theorem records_are_kept_across_exports_and_runs_witness:
  "temperature_data (snd (save_to_csv ''20260115_093100'' after_first_run)) = [mumbai, shimla]
   \<and> temperature_data (snd (save_to_json ''20260115_093100'' after_first_run)) = [mumbai, shimla]
   \<and> fst (scrape_weather_data sample_env
            (snd (save_to_csv ''20260115_093100'' (snd (scrape_weather_data sample_env fresh)))))
       = [mumbai, shimla, mumbai, shimla]"
  using records_are_kept_across_exports_and_runs
      [of "''20260115_093100''" after_first_run sample_env sample_env]
    records_are_kept_across_exports_and_runs
      [of "''20260115_093100''" fresh sample_env sample_env]
  by (simp add: after_first_run_simps sample_fetched fresh_simps)

text \<open>
  C9 as stated fails: after both exports the records of the first run are still held,
  and a second run in which no city is reached returns them.
\<close>

theorem records_survive_export_and_reappear:
  "temperature_data (snd (save_to_csv ''20260115_093100'' after_first_run)) = [mumbai, shimla]
   \<and> temperature_data (snd (save_to_json ''20260115_093100'' after_first_run)) = [mumbai, shimla]
   \<and> fetched_records offline_env (cities after_first_run) = []
   \<and> fst (scrape_weather_data offline_env
            (snd (save_to_json ''20260115_093100''
                   (snd (save_to_csv ''20260115_093100'' after_first_run)))))
       = [mumbai, shimla]"
  by (simp add: save_frame scrape_weather_data_fst after_first_run_simps offline_fetched)


end
